theory Spec2Isabelle
  imports Main
begin

section \<open>The operations table\<close>

text \<open>
  One row of the \<^verbatim>\<open>operations\<close> table, with the columns the scripts read and write.
  The columns \<^verbatim>\<open>id\<close> and \<^verbatim>\<open>type\<close> carry the names the shell loops give them
  (\<^verbatim>\<open>op_id\<close>, \<^verbatim>\<open>op_type\<close>). Status and source are the strings the SQL compares.
  Timestamps are seconds on one clock: the \<^verbatim>\<open>datetime\<close> texts of SQLite compare in
  that order. A nullable column is an option, \<open>None\<close> being NULL; \<^verbatim>\<open>retry_count\<close> is a
  number in every row.
\<close>

record operation =
  op_id :: nat
  op_type :: string
  data :: string
  status :: string
  source :: string
  retry_count :: nat
  error :: "string option"
  result :: "string option"
  created_at :: int
  started_at :: "int option"
  completed_at :: "int option"

text \<open>
  The database file: the live table and the archive table, each in table order.
\<close>

record database =
  operations :: "operation list"
  operations_archive :: "operation list"

text \<open>
  \<^verbatim>\<open>UPDATE operations SET ... WHERE id = $operation_id\<close>: every row with that id is
  rewritten, every other row is kept, and the table order stays.
\<close>

definition update_where_id :: "nat \<Rightarrow> (operation \<Rightarrow> operation) \<Rightarrow> operation list \<Rightarrow> operation list" where
  "update_where_id operation_id f ops = map (\<lambda>r. if op_id r = operation_id then f r else r) ops"

text \<open>
  \<^verbatim>\<open>datetime('now', '-N seconds') > column\<close>: a comparison with NULL is not true, so
  a row whose column is NULL is never selected.
\<close>

definition older_than :: "int \<Rightarrow> int \<Rightarrow> int option \<Rightarrow> bool" where
  "older_than now age ts = (case ts of None \<Rightarrow> False | Some t \<Rightarrow> now - age > t)"

section \<open>core/database.sh\<close>

text \<open>
  \<^verbatim>\<open>get_operation_data\<close>: the \<^verbatim>\<open>data\<close> column of the rows with the id, one line each.
\<close>

definition get_operation_data :: "nat \<Rightarrow> operation list \<Rightarrow> string list" where
  "get_operation_data operation_id ops = map data (filter (\<lambda>r. op_id r = operation_id) ops)"

text \<open>
  \<^verbatim>\<open>update_operation_status\<close>: the \<^verbatim>\<open>if\<close>/\<^verbatim>\<open>elif\<close> chain picks the statement from
  the status text alone; the row's current status is not read. Any other status text
  leaves the statement empty and nothing is written. \<open>now\<close> is the clock when the
  statement runs.
\<close>

definition update_operation_status :: "int \<Rightarrow> nat \<Rightarrow> string \<Rightarrow> string \<Rightarrow> operation list \<Rightarrow> operation list" where
  "update_operation_status now operation_id st error_message ops =
     (if st = ''processing'' then
        update_where_id operation_id (\<lambda>r. r\<lparr>status := st, started_at := Some now\<rparr>) ops
      else if st = ''completed'' then
        update_where_id operation_id (\<lambda>r. r\<lparr>status := st, completed_at := Some now\<rparr>) ops
      else if st = ''failed'' then
        update_where_id operation_id
          (\<lambda>r. r\<lparr>status := st, completed_at := Some now, error := Some error_message\<rparr>) ops
      else ops)"

definition store_operation_result :: "nat \<Rightarrow> string \<Rightarrow> operation list \<Rightarrow> operation list" where
  "store_operation_result operation_id res ops =
     update_where_id operation_id (\<lambda>r. r\<lparr>result := Some res\<rparr>) ops"

definition check_operation_exists :: "nat \<Rightarrow> operation list \<Rightarrow> bool" where
  "check_operation_exists operation_id ops = (length (filter (\<lambda>r. op_id r = operation_id) ops) = 1)"

definition get_operation_status :: "nat \<Rightarrow> operation list \<Rightarrow> string list" where
  "get_operation_status operation_id ops = map status (filter (\<lambda>r. op_id r = operation_id) ops)"

text \<open>
  \<^verbatim>\<open>should_handle_operation\<close>, as the design notes of the repository give it for
  \<^verbatim>\<open>core/database.sh\<close>: true when the \<^verbatim>\<open>source\<close> column of the row reads \<^verbatim>\<open>api\<close>.
  The \<^verbatim>\<open>core/database.sh\<close> of the repository does not contain it, and no handler,
  queue worker or status monitor calls it.
\<close>

definition should_handle_operation :: "nat \<Rightarrow> operation list \<Rightarrow> bool" where
  "should_handle_operation operation_id ops =
     (map source (filter (\<lambda>r. op_id r = operation_id) ops) = [''api''])"

section \<open>orchestrator/status\_monitor.sh\<close>

text \<open>
  The script sets \<^verbatim>\<open>set -e\<close>: a command that returns a status other than 0 ends the
  script at once, with that status. So a function of the script either ends the script
  (\<open>Inl\<close>, with the status and the state as it is at that moment) or returns (\<open>Inr\<close>,
  with the state it leaves).
\<close>

type_synonym 's script = "(nat \<times> 's) + 's"

definition errexit :: "nat \<Rightarrow> 's \<Rightarrow> 's script \<Rightarrow> 's script" where
  "errexit st s rest = (if st = 0 then rest else Inl (st, s))"

definition state_left :: "'s script \<Rightarrow> 's" where
  "state_left x = (case x of Inl (st, s) \<Rightarrow> s | Inr s \<Rightarrow> s)"

text \<open>
  \<^verbatim>\<open>log_monitor\<close> hands its message to \<^verbatim>\<open>log_message\<close>. Neither the script nor the
  two files it sources (\<^verbatim>\<open>core/database.sh\<close>, \<^verbatim>\<open>core/logging.sh\<close>) defines
  \<^verbatim>\<open>log_message\<close>, so the shell finds no such command: the call has status 127, and
  that is the status of \<^verbatim>\<open>log_monitor\<close>. The messages are given without the values
  the shell would put into them.
\<close>

definition log_monitor :: "string \<Rightarrow> nat" where
  "log_monitor message = 127"

definition MAX_RETRIES :: nat where
  "MAX_RETRIES = 3"

text \<open>
  \<^verbatim>\<open>SELECT retry_count FROM operations WHERE id = $op_id\<close>, as the test
  \<^verbatim>\<open>[[ $retries -lt $MAX_RETRIES ]]\<close> reads it: an empty answer counts as 0. The id is
  the table's key, so there is at most one line; the first is taken.
\<close>

definition select_retry_count :: "nat \<Rightarrow> operation list \<Rightarrow> nat" where
  "select_retry_count oid ops =
     (case filter (\<lambda>r. op_id r = oid) ops of [] \<Rightarrow> 0 | r # _ \<Rightarrow> retry_count r)"

text \<open>
  The two \<^verbatim>\<open>UPDATE\<close> statements of \<^verbatim>\<open>handle_stuck_operation\<close>: the retry reset names
  \<^verbatim>\<open>status\<close>, \<^verbatim>\<open>retry_count\<close> and \<^verbatim>\<open>error\<close>, the final failure \<^verbatim>\<open>status\<close> and
  \<^verbatim>\<open>error\<close>; no other column is named.
\<close>

definition stuck_retry_update :: "nat \<Rightarrow> operation list \<Rightarrow> operation list" where
  "stuck_retry_update oid ops =
     update_where_id oid
       (\<lambda>r. r\<lparr>status := ''pending'', retry_count := retry_count r + 1,
              error := Some ''Operation stuck - attempting retry''\<rparr>) ops"

definition stuck_failed_update :: "nat \<Rightarrow> operation list \<Rightarrow> operation list" where
  "stuck_failed_update oid ops =
     update_where_id oid
       (\<lambda>r. r\<lparr>status := ''failed'', error := Some ''Operation failed after 3 retries''\<rparr>) ops"

text \<open>
  \<^verbatim>\<open>handle_stuck_operation\<close>: its first command is \<^verbatim>\<open>log_monitor\<close>; the type and the
  start time are only logged.
\<close>

definition handle_stuck_operation :: "nat \<Rightarrow> string \<Rightarrow> int option \<Rightarrow> operation list \<Rightarrow> operation list script" where
  "handle_stuck_operation oid ty start_time ops =
     errexit (log_monitor ''Handling stuck operation'') ops
       (let retries = select_retry_count oid ops in
        if retries < MAX_RETRIES then
          (let ops1 = stuck_retry_update oid ops in
           errexit (log_monitor ''Reset stuck operation for retry'') ops1 (Inr ops1))
        else
          (let ops1 = stuck_failed_update oid ops in
           errexit (log_monitor ''Operation failed after maximum retries'') ops1 (Inr ops1)))"

text \<open>
  A \<^verbatim>\<open>while read\<close> loop over the rows of an answer: the body runs on each row in turn,
  and the script ends where the body ends it.
\<close>

fun for_each :: "('r \<Rightarrow> 's \<Rightarrow> 's script) \<Rightarrow> 'r list \<Rightarrow> 's \<Rightarrow> 's script" where
  "for_each body [] s = Inr s"
| "for_each body (r # rs) s = (case body r s of Inl e \<Rightarrow> Inl e | Inr s1 \<Rightarrow> for_each body rs s1)"

text \<open>
  The query of \<^verbatim>\<open>check_stuck_operations\<close>: status and age of \<^verbatim>\<open>started_at\<close>, thirty
  minutes being 1800 seconds; no other column is tested.
\<close>

definition stuck_ops :: "int \<Rightarrow> operation list \<Rightarrow> operation list" where
  "stuck_ops now ops =
     filter (\<lambda>r. status r = ''processing'' \<and> older_than now 1800 (started_at r)) ops"

text \<open>
  \<^verbatim>\<open>check_stuck_operations\<close>: \<^verbatim>\<open>log_monitor\<close> first, then the query, then the loop.
\<close>

definition check_stuck_operations :: "int \<Rightarrow> operation list \<Rightarrow> operation list script" where
  "check_stuck_operations now ops =
     errexit (log_monitor ''Checking for stuck operations'') ops
       (for_each (\<lambda>r. handle_stuck_operation (op_id r) (op_type r) (started_at r))
          (stuck_ops now ops) ops)"

definition timeout_retry_update :: "nat \<Rightarrow> operation list \<Rightarrow> operation list" where
  "timeout_retry_update oid ops =
     update_where_id oid
       (\<lambda>r. r\<lparr>status := ''pending'', retry_count := retry_count r + 1,
              error := Some ''Operation timed out - attempting retry''\<rparr>) ops"

definition timeout_failed_update :: "nat \<Rightarrow> operation list \<Rightarrow> operation list" where
  "timeout_failed_update oid ops =
     update_where_id oid
       (\<lambda>r. r\<lparr>status := ''failed'', error := Some ''Operation timed out after 3 retries''\<rparr>) ops"

definition handle_timeout :: "nat \<Rightarrow> string \<Rightarrow> operation list \<Rightarrow> operation list script" where
  "handle_timeout oid ty ops =
     errexit (log_monitor ''Handling timeout for operation'') ops
       (let retries = select_retry_count oid ops in
        if retries < MAX_RETRIES then
          (let ops1 = timeout_retry_update oid ops in
           errexit (log_monitor ''Reset timed out operation for retry'') ops1 (Inr ops1))
        else
          (let ops1 = timeout_failed_update oid ops in
           errexit (log_monitor ''Operation failed after timeout and maximum retries'') ops1
             (Inr ops1)))"

definition timed_out_ops :: "int \<Rightarrow> operation list \<Rightarrow> operation list" where
  "timed_out_ops now ops =
     filter (\<lambda>r. status r = ''processing'' \<and> older_than now 3600 (started_at r)) ops"

definition check_timed_out_operations :: "int \<Rightarrow> operation list \<Rightarrow> operation list script" where
  "check_timed_out_operations now ops =
     errexit (log_monitor ''Checking for timed out operations'') ops
       (for_each (\<lambda>r. handle_timeout (op_id r) (op_type r)) (timed_out_ops now ops) ops)"

text \<open>
  \<^verbatim>\<open>cleanup_old_operations\<close>: \<^verbatim>\<open>log_monitor\<close> first, then two statements, each reading
  the clock for itself (\<open>t_insert\<close>, then \<open>t_delete\<close>); thirty days are 2592000
  seconds.
\<close>

definition old_terminal :: "int \<Rightarrow> operation \<Rightarrow> bool" where
  "old_terminal now r =
     ((status r = ''completed'' \<or> status r = ''failed'') \<and> older_than now 2592000 (completed_at r))"

definition cleanup_old_operations :: "int \<Rightarrow> int \<Rightarrow> database \<Rightarrow> database script" where
  "cleanup_old_operations t_insert t_delete db =
     errexit (log_monitor ''Cleaning up old operations'') db
       (let archived = operations_archive db @ filter (old_terminal t_insert) (operations db) in
        Inr \<lparr>operations = filter (\<lambda>r. \<not> old_terminal t_delete r) (operations db),
             operations_archive = archived\<rparr>)"

text \<open>
  \<^verbatim>\<open>generate_status_report\<close>: it logs, counts the rows of the last day and logs the
  counts; it writes nothing to the database.
\<close>

definition generate_status_report :: "database \<Rightarrow> database script" where
  "generate_status_report db =
     errexit (log_monitor ''Generating status report'') db
       (errexit (log_monitor ''Daily Status Report:'') db
          (errexit (log_monitor ''stats'') db (Inr db)))"

text \<open>
  One pass of the loop of \<^verbatim>\<open>monitor_status\<close>: the stuck check, then the timeout
  check, each with the clock of its own query, then, when the wall clock reads 00:00,
  the report and the sweep.
\<close>

record pass_clock =
  t_stuck :: int
  t_timeout :: int
  hhmm :: string
  t_insert_archive :: int
  t_delete_archive :: int

definition on_operations :: "database \<Rightarrow> operation list script \<Rightarrow> database script" where
  "on_operations db x =
     (case x of Inl (st, ops) \<Rightarrow> Inl (st, db\<lparr>operations := ops\<rparr>)
              | Inr ops \<Rightarrow> Inr (db\<lparr>operations := ops\<rparr>))"

definition monitor_pass :: "pass_clock \<Rightarrow> database \<Rightarrow> database script" where
  "monitor_pass c db =
     (case on_operations db (check_stuck_operations (t_stuck c) (operations db)) of
        Inl e \<Rightarrow> Inl e
      | Inr db1 \<Rightarrow>
          (case on_operations db1 (check_timed_out_operations (t_timeout c) (operations db1)) of
             Inl e \<Rightarrow> Inl e
           | Inr db2 \<Rightarrow>
               if hhmm c = ''00:00'' then
                 (case generate_status_report db2 of
                    Inl e \<Rightarrow> Inl e
                  | Inr db3 \<Rightarrow>
                      cleanup_old_operations (t_insert_archive c) (t_delete_archive c) db3)
               else Inr db2))"

text \<open>
  \<^verbatim>\<open>monitor_status\<close>: \<^verbatim>\<open>log_monitor\<close> first, then the loop, which sleeps and repeats
  for ever. \<open>monitor_loop\<close> runs the loop over the clock readings of finitely many
  passes; \<open>Inr\<close> is then the state with the loop still running.
\<close>

fun monitor_loop :: "pass_clock list \<Rightarrow> database \<Rightarrow> database script" where
  "monitor_loop [] db = Inr db"
| "monitor_loop (c # cs) db =
     (case monitor_pass c db of Inl e \<Rightarrow> Inl e | Inr db1 \<Rightarrow> monitor_loop cs db1)"

definition monitor_status :: "pass_clock list \<Rightarrow> database \<Rightarrow> database script" where
  "monitor_status cs db =
     errexit (log_monitor ''Starting operation status monitor'') db (monitor_loop cs db)"

section \<open>orchestrator/queue\_worker.sh\<close>

text \<open>
  The registry file as shipped, line by line (comment and empty lines included), every
  line ended by a newline.
\<close>

definition operation_types_conf :: "string list" where
  "operation_types_conf =
     [''# Site Operations'',
      ''site.create=/home/clp/scripts/sites/manage_site.sh create'',
      ''site.delete=/home/clp/scripts/sites/manage_site.sh delete'',
      ''site.update=/home/clp/scripts/sites/manage_site.sh update'',
      [],
      ''# User Operations'',
      ''user.create=/home/clp/scripts/user/manage_user.sh create'',
      ''user.delete=/home/clp/scripts/user/manage_user.sh delete'',
      ''user.reset_password=/home/clp/scripts/user/manage_user.sh reset_password'',
      [],
      ''# Database Operations'',
      ''database.create=/home/clp/scripts/databases/manage_database.sh create'',
      ''database.delete=/home/clp/scripts/databases/manage_database.sh delete'',
      ''database.export=/home/clp/scripts/databases/manage_database.sh export'',
      ''database.import=/home/clp/scripts/databases/manage_database.sh import'',
      ''database.backup=/home/clp/scripts/databases/manage_database.sh backup'',
      [],
      ''# Certificate Operations'',
      ''certificate.lets_encrypt=/home/clp/scripts/certificates/manage_certificates.sh install_lets_encrypt'',
      ''certificate.custom=/home/clp/scripts/certificates/manage_certificates.sh install_custom'',
      ''certificate.renew=/home/clp/scripts/certificates/manage_certificates.sh renew_domain'',
      ''certificate.renew_all=/home/clp/scripts/certificates/manage_certificates.sh renew_all'',
      [],
      ''# Maintenance Operations'',
      ''maintenance.full=/home/clp/scripts/maintenance/system_maintenance.sh full'',
      ''maintenance.logs=/home/clp/scripts/maintenance/system_maintenance.sh logs'',
      ''maintenance.backups=/home/clp/scripts/maintenance/system_maintenance.sh backups'',
      ''maintenance.cleanup=/home/clp/scripts/maintenance/system_maintenance.sh cleanup'',
      ''maintenance.optimize=/home/clp/scripts/maintenance/system_maintenance.sh optimize'',
      ''maintenance.security=/home/clp/scripts/maintenance/system_maintenance.sh security'',
      [],
      ''# Monitoring Operations'',
      ''monitoring.collect=/home/clp/scripts/monitoring/system_monitor.sh collect'',
      ''monitoring.clean=/home/clp/scripts/monitoring/system_monitor.sh clean'',
      ''monitoring.services=/home/clp/scripts/monitoring/system_monitor.sh services'']"

text \<open>
  \<^verbatim>\<open>IFS='=' read -r operation_type handler_script\<close>: the first variable takes the text
  before the first \<^verbatim>\<open>=\<close>, the second all that follows it, spaces included (the only
  separator is \<^verbatim>\<open>=\<close>).
\<close>

definition read_mapping :: "string \<Rightarrow> string \<times> string" where
  "read_mapping line =
     (takeWhile (\<lambda>c. c \<noteq> CHR ''='') line, drop 1 (dropWhile (\<lambda>c. c \<noteq> CHR ''='') line))"

text \<open>
  The loop that fills the associative array \<^verbatim>\<open>OPERATION_HANDLERS\<close>: a later line
  overwrites an earlier one with the same key. An empty key is no subscript of such an
  array: at the first line with an empty key (an empty line, or one that begins with
  \<^verbatim>\<open>=\<close>) the shell reports a bad array subscript and gives up the whole loop, so no
  later line is read.
\<close>

fun load_operation_handlers :: "(string \<rightharpoonup> string) \<Rightarrow> string list \<Rightarrow> (string \<rightharpoonup> string)" where
  "load_operation_handlers m [] = m"
| "load_operation_handlers m (line # lines) =
     (case read_mapping line of (operation_type, handler_script) \<Rightarrow>
        if operation_type = [] then m
        else load_operation_handlers (m(operation_type \<mapsto> handler_script)) lines)"

definition OPERATION_HANDLERS :: "string \<rightharpoonup> string" where
  "OPERATION_HANDLERS = load_operation_handlers Map.empty operation_types_conf"

text \<open>
  The query of \<^verbatim>\<open>monitor_operations\<close>: status alone is tested, and the rows come in
  the order of \<^verbatim>\<open>created_at\<close>.
\<close>

definition pending_ops :: "operation list \<Rightarrow> (nat \<times> string) list" where
  "pending_ops ops =
     map (\<lambda>r. (op_id r, op_type r)) (sort_key created_at (filter (\<lambda>r. status r = ''pending'') ops))"

text \<open>
  The script as the shell runs it. The shell reads and runs one command after the other:
  it sources the two core files, fills \<^verbatim>\<open>OPERATION_HANDLERS\<close> and defines
  \<^verbatim>\<open>log_message\<close>. The next command is the definition of \<^verbatim>\<open>process_operation\<close>, whose
  first \<^verbatim>\<open>if\<close> is closed with a brace instead of \<^verbatim>\<open>fi\<close>: the shell reports a syntax
  error and leaves with status 2. \<^verbatim>\<open>process_operation\<close> and \<^verbatim>\<open>monitor_operations\<close> are
  never defined, the query above is never sent, no handler is called, and the table is
  as it was.
\<close>

definition queue_worker :: "operation list \<Rightarrow> nat \<times> operation list" where
  "queue_worker ops = (2, ops)"

section \<open>A handler: maintenance/system\_maintenance.sh\<close>

text \<open>
  \<^verbatim>\<open>main\<close> of the maintenance handler, called with an operation id. It marks the row
  \<^verbatim>\<open>processing\<close> before it looks at its first argument, runs the task the argument
  names, and marks the row \<^verbatim>\<open>completed\<close>; any other argument prints the usage and
  exits 1. The tasks act on the host, not on the table: \<open>task\<close> gives the exit code of
  the task and the table as the task and the error trap leave it.
\<close>

definition system_maintenance_main ::
  "(string \<Rightarrow> operation list \<Rightarrow> nat \<times> operation list) \<Rightarrow> int \<Rightarrow> int \<Rightarrow> string \<Rightarrow> nat \<Rightarrow>
   operation list \<Rightarrow> nat \<times> operation list" where
  "system_maintenance_main task t_begin t_done operation oid ops =
     (let ops1 = update_operation_status t_begin oid ''processing'' [] ops in
      if operation \<in> set [''full'', ''logs'', ''backups'', ''cleanup'', ''optimize'', ''security''] then
        (case task operation ops1 of
           (0, ops2) \<Rightarrow> (0, update_operation_status t_done oid ''completed'' [] ops2)
         | (Suc c, ops2) \<Rightarrow> (Suc c, ops2))
      else (1, ops1))"

section \<open>The producer\<close>

text \<open>
  Modelled from the spec: the table's schema (\<^verbatim>\<open>sql/schema.sql\<close>) is missing, so
  the id the store assigns and the defaults of the columns the \<^verbatim>\<open>INSERT\<close> does not
  name are taken from the spec: a new unique id, \<^verbatim>\<open>retry_count\<close> 0, the nullable
  columns NULL.
\<close>

definition next_id :: "operation list \<Rightarrow> nat" where
  "next_id ops = Suc (foldr max (map op_id ops) 0)"

text \<open>
  \<^verbatim>\<open>create_operation\<close>, as the design notes of the repository give it: the \<^verbatim>\<open>INSERT\<close>
  names type, data, status \<^verbatim>\<open>pending\<close>, source \<^verbatim>\<open>api\<close> and \<^verbatim>\<open>created_at\<close>.
\<close>

definition create_operation :: "int \<Rightarrow> string \<Rightarrow> string \<Rightarrow> operation list \<Rightarrow> operation list" where
  "create_operation now ty d ops =
     ops @ [\<lparr>op_id = next_id ops, op_type = ty, data = d, status = ''pending'', source = ''api'',
             retry_count = 0, error = None, result = None, created_at = now,
             started_at = None, completed_at = None\<rparr>]"

section \<open>Runs of the whole system\<close>




section \<open>Registered texts as a path and an argument\<close>

text \<open>
  The part of a registered text before its first space and the part after it: a text is
  a script path, a space and an argument when it is the first part, a space and the
  second part, both non-empty.
\<close>

definition script_part :: "string \<Rightarrow> string" where
  "script_part h = takeWhile (\<lambda>c. c \<noteq> CHR '' '') h"

definition argument_part :: "string \<Rightarrow> string" where
  "argument_part h = drop 1 (dropWhile (\<lambda>c. c \<noteq> CHR '' '') h)"

section \<open>Rows, databases and clock readings used in the examples\<close>

text \<open>
  A freshly queued row, as \<open>create_operation\<close> writes it into an empty table.
\<close>

definition sample_row :: operation where
  "sample_row =
     \<lparr>op_id = 1, op_type = ''maintenance.full'', data = ''{}'', status = ''pending'',
      source = ''api'', retry_count = 0, error = None, result = None, created_at = 0,
      started_at = None, completed_at = None\<rparr>"

text \<open>
  A row of the unrelated orchestration path, waiting in the same table.
\<close>

definition ui_row :: operation where
  "ui_row = sample_row\<lparr>source := ''ui''\<rparr>"

text \<open>
  The same row after a handler marked it \<^verbatim>\<open>processing\<close> at second 0 and then stalled,
  and the database that holds only that row.
\<close>

definition stalled_row :: operation where
  "stalled_row = sample_row\<lparr>status := ''processing'', started_at := Some 0\<rparr>"

definition stalled_db :: database where
  "stalled_db = \<lparr>operations = [stalled_row], operations_archive = []\<rparr>"



text \<open>
  The row completed at second 10, and the database that holds only that row.
\<close>

definition finished_row :: operation where
  "finished_row =
     sample_row\<lparr>status := ''completed'', started_at := Some 0, completed_at := Some 10\<rparr>"

definition finished_db :: database where
  "finished_db = \<lparr>operations = [finished_row], operations_archive = []\<rparr>"


text \<open>
  The clock readings of a pass of the status monitor at midday, 2000 seconds after the
  rows above were started, and of a pass at midnight more than 30 days later.
\<close>

definition midday_pass :: pass_clock where
  "midday_pass =
     \<lparr>t_stuck = 2000, t_timeout = 2001, hhmm = ''12:00'', t_insert_archive = 2002,
      t_delete_archive = 2002\<rparr>"

definition midnight_pass :: pass_clock where
  "midnight_pass =
     \<lparr>t_stuck = 3000000, t_timeout = 3000000, hhmm = ''00:00'', t_insert_archive = 3000000,
      t_delete_archive = 3000000\<rparr>"


section \<open>Evaluating the scripts on concrete tables\<close>

lemmas eval_defs =
  update_where_id_def older_than_def update_operation_status_def store_operation_result_def
  MAX_RETRIES_def select_retry_count_def stuck_ops_def timed_out_ops_def old_terminal_def
  stuck_retry_update_def stuck_failed_update_def timeout_retry_update_def
  timeout_failed_update_def next_id_def create_operation_def pending_ops_def
  system_maintenance_main_def should_handle_operation_def queue_worker_def state_left_def

section \<open>Rows and ids\<close>

lemma same_id_same_row:
  assumes "distinct (map op_id ops)" "r \<in> set ops" "x \<in> set ops"
  shows "op_id x = op_id r \<longleftrightarrow> x = r"
proof -
  have "inj_on op_id (set ops)"
    using assms(1) by (simp add: distinct_map)
  then show ?thesis
    using assms(2,3) by (auto simp: inj_on_def)
qed

lemma update_where_id_row:
  assumes "distinct (map op_id ops)" "r \<in> set ops"
  shows "update_where_id (op_id r) f ops = map (\<lambda>x. if x = r then f r else x) ops"
  unfolding update_where_id_def
  by (rule map_cong) (simp_all add: same_id_same_row [OF assms])


section \<open>The status monitor stops at its first log line\<close>

lemma errexit_log_monitor: "errexit (log_monitor message) s rest = Inl (127, s)"
  by (simp add: errexit_def log_monitor_def)

lemma handle_stuck_operation_exits: "handle_stuck_operation oid ty start_time ops = Inl (127, ops)"
  unfolding handle_stuck_operation_def by (rule errexit_log_monitor)

lemma handle_timeout_exits: "handle_timeout oid ty ops = Inl (127, ops)"
  unfolding handle_timeout_def by (rule errexit_log_monitor)

lemma check_stuck_operations_exits: "check_stuck_operations now ops = Inl (127, ops)"
  unfolding check_stuck_operations_def by (rule errexit_log_monitor)

lemma check_timed_out_operations_exits: "check_timed_out_operations now ops = Inl (127, ops)"
  unfolding check_timed_out_operations_def by (rule errexit_log_monitor)

lemma cleanup_old_operations_exits: "cleanup_old_operations t_insert t_delete db = Inl (127, db)"
  unfolding cleanup_old_operations_def by (rule errexit_log_monitor)

lemma generate_status_report_exits: "generate_status_report db = Inl (127, db)"
  unfolding generate_status_report_def by (rule errexit_log_monitor)

lemma monitor_pass_exits: "monitor_pass c db = Inl (127, db)"
  by (simp add: monitor_pass_def on_operations_def check_stuck_operations_exits)

lemma monitor_status_exits: "monitor_status cs db = Inl (127, db)"
  unfolding monitor_status_def by (rule errexit_log_monitor)



section \<open>Rows of the other orchestration path (C1)\<close>

text \<open>
  C1 fails on the code where it speaks of the handlers: a handler does not read the
  \<^verbatim>\<open>source\<close> column. For a row with source \<^verbatim>\<open>ui\<close>, which \<^verbatim>\<open>should_handle_operation\<close>
  of the design notes rejects, the maintenance handler called with a task it knows marks
  the row \<^verbatim>\<open>processing\<close> and then \<^verbatim>\<open>completed\<close> and exits 0; called with a first
  argument it does not know it marks the row \<^verbatim>\<open>processing\<close> and exits 1.
\<close>

theorem handler_mutates_ui_row:
  "source ui_row = ''ui'' \<and> \<not> should_handle_operation 1 [ui_row]
   \<and> system_maintenance_main (\<lambda>task ops1. (0, ops1)) 10 20 ''full'' 1 [ui_row] =
       (0, [ui_row\<lparr>status := ''completed'', started_at := Some 10, completed_at := Some 20\<rparr>])
   \<and> system_maintenance_main (\<lambda>task ops1. (0, ops1)) 10 20 ''maintenance.full'' 1 [ui_row] =
       (1, [ui_row\<lparr>status := ''processing'', started_at := Some 10\<rparr>])"
  by (simp add: eval_defs ui_row_def sample_row_def)

section \<open>The claim step (C3)\<close>

text \<open>
  C3, as the claim states it, fails: the step that marks a row \<^verbatim>\<open>processing\<close> does not
  look at the row's status. On a row that is \<^verbatim>\<open>completed\<close> it sets the status to
  \<^verbatim>\<open>processing\<close> and \<^verbatim>\<open>started_at\<close> to the clock; the row is not left unchanged.
\<close>

theorem claim_only_from_pending_counterexample:
  "update_operation_status 50 1 ''processing'' [] [finished_row] =
     [finished_row\<lparr>status := ''processing'', started_at := Some 50\<rparr>]
   \<and> status finished_row = ''completed''
   \<and> update_operation_status 50 1 ''processing'' [] [finished_row] \<noteq> [finished_row]"
  by (simp add: eval_defs finished_row_def sample_row_def)

text \<open>
  C3, amended: the step that marks a row \<^verbatim>\<open>processing\<close>
  (\<^verbatim>\<open>update_operation_status id "processing"\<close>, called by the handlers) sets
  \<^verbatim>\<open>status\<close> to \<^verbatim>\<open>processing\<close> and \<^verbatim>\<open>started_at\<close> to the clock on the row with that id
  whatever its status was, pending or not, changes no other column and no other row, and
  gives no verdict; the Dispatcher's query hands over only rows that are \<^verbatim>\<open>pending\<close>
  when it runs.
\<close>

theorem claim_step_ignores_status:
  assumes "distinct (map op_id ops)" and "r \<in> set ops"
  shows "update_operation_status now (op_id r) ''processing'' msg ops =
           map (\<lambda>x. if x = r then r\<lparr>status := ''processing'', started_at := Some now\<rparr> else x) ops
         \<and> (\<forall>p \<in> set (pending_ops ops).
               \<exists>x \<in> set ops. op_id x = fst p \<and> op_type x = snd p \<and> status x = ''pending'')"
proof -
  have "update_operation_status now (op_id r) ''processing'' msg ops =
          map (\<lambda>x. if x = r then r\<lparr>status := ''processing'', started_at := Some now\<rparr> else x) ops"
    by (simp add: update_operation_status_def update_where_id_row [OF assms])
  moreover have "\<forall>p \<in> set (pending_ops ops).
      \<exists>x \<in> set ops. op_id x = fst p \<and> op_type x = snd p \<and> status x = ''pending''"
    by (auto simp: pending_ops_def)
  ultimately show ?thesis by blast
qed

theorem claim_step_ignores_status_witness:
  "distinct (map op_id [finished_row]) \<and> finished_row \<in> set [finished_row]
   \<and> update_operation_status 50 (op_id finished_row) ''processing'' [] [finished_row] =
       [finished_row\<lparr>status := ''processing'', started_at := Some 50\<rparr>]
   \<and> pending_ops [finished_row] = []"
proof -
  have h1: "distinct (map op_id [finished_row])"
    by simp
  have h2: "finished_row \<in> set [finished_row]"
    by simp
  have p: "pending_ops [finished_row] = []"
    by (simp add: pending_ops_def finished_row_def)
  from claim_step_ignores_status [OF h1 h2, of 50 "[]"]
  have "update_operation_status 50 (op_id finished_row) ''processing'' [] [finished_row] =
       [finished_row\<lparr>status := ''processing'', started_at := Some 50\<rparr>]"
    by simp
  then show ?thesis
    using p by simp
qed

section \<open>Retry exhaustion (C4)\<close>


section \<open>Terminal rows carry \<^verbatim>\<open>completed_at\<close> (C5)\<close>






section \<open>The retry reset (C6)\<close>

text \<open>
  C6, as the claim states it, fails. On a row in \<^verbatim>\<open>processing\<close> the Watchdog's handling
  of a stuck or timed out operation ends the script at its first command and leaves the
  row as it was: no reset is made. And the \<^verbatim>\<open>UPDATE\<close> of the retry reset itself does
  not clear \<^verbatim>\<open>started_at\<close>: applied to a row started at second 0 it gives a
  \<^verbatim>\<open>pending\<close> row that still carries that start time.
\<close>

theorem reset_clears_timestamps_counterexample:
  "status stalled_row = ''processing''
   \<and> handle_stuck_operation 1 ''maintenance.full'' (Some 0) [stalled_row] = Inl (127, [stalled_row])
   \<and> handle_timeout 1 ''maintenance.full'' [stalled_row] = Inl (127, [stalled_row])
   \<and> stuck_retry_update 1 [stalled_row] =
       [stalled_row\<lparr>status := ''pending'', retry_count := 1,
                     error := Some ''Operation stuck - attempting retry''\<rparr>]
   \<and> started_at (stalled_row\<lparr>status := ''pending'', retry_count := 1,
                     error := Some ''Operation stuck - attempting retry''\<rparr>) = Some 0"
  by (simp add: handle_stuck_operation_exits handle_timeout_exits eval_defs stalled_row_def
      sample_row_def)

text \<open>
  C6, amended: the \<^verbatim>\<open>UPDATE\<close> statement of the Watchdog's retry reset, the one of the
  stuck check and the one of the timeout check, applied to the row with the given id,
  sets the status to \<^verbatim>\<open>pending\<close>, adds exactly one to \<^verbatim>\<open>retry_count\<close> and writes the
  retry note into \<^verbatim>\<open>error\<close>; every other column of the row and every other row of the
  table stay as they were, and \<^verbatim>\<open>started_at\<close> and \<^verbatim>\<open>completed_at\<close> are cleared in no
  row.
\<close>

theorem watchdog_reset_fields:
  assumes "distinct (map op_id ops)" and "r \<in> set ops"
  shows "stuck_retry_update (op_id r) ops =
           map (\<lambda>x. if x = r
                     then r\<lparr>status := ''pending'', retry_count := retry_count r + 1,
                            error := Some ''Operation stuck - attempting retry''\<rparr>
                     else x) ops
         \<and> timeout_retry_update (op_id r) ops =
           map (\<lambda>x. if x = r
                     then r\<lparr>status := ''pending'', retry_count := retry_count r + 1,
                            error := Some ''Operation timed out - attempting retry''\<rparr>
                     else x) ops
         \<and> map started_at (stuck_retry_update (op_id r) ops) = map started_at ops
         \<and> map completed_at (stuck_retry_update (op_id r) ops) = map completed_at ops
         \<and> map started_at (timeout_retry_update (op_id r) ops) = map started_at ops
         \<and> map completed_at (timeout_retry_update (op_id r) ops) = map completed_at ops"
proof -
  have a: "stuck_retry_update (op_id r) ops =
           map (\<lambda>x. if x = r
                     then r\<lparr>status := ''pending'', retry_count := retry_count r + 1,
                            error := Some ''Operation stuck - attempting retry''\<rparr>
                     else x) ops"
    by (simp add: stuck_retry_update_def update_where_id_row [OF assms])
  have b: "timeout_retry_update (op_id r) ops =
           map (\<lambda>x. if x = r
                     then r\<lparr>status := ''pending'', retry_count := retry_count r + 1,
                            error := Some ''Operation timed out - attempting retry''\<rparr>
                     else x) ops"
    by (simp add: timeout_retry_update_def update_where_id_row [OF assms])
  have c: "map started_at (stuck_retry_update i ops) = map started_at ops"
          "map completed_at (stuck_retry_update i ops) = map completed_at ops"
          "map started_at (timeout_retry_update i ops) = map started_at ops"
          "map completed_at (timeout_retry_update i ops) = map completed_at ops" for i
    by (simp_all add: stuck_retry_update_def timeout_retry_update_def update_where_id_def)
  show ?thesis
    using a b c by simp
qed

theorem watchdog_reset_fields_witness:
  "distinct (map op_id [stalled_row]) \<and> stalled_row \<in> set [stalled_row]
   \<and> stuck_retry_update 1 [stalled_row] =
       [stalled_row\<lparr>status := ''pending'', retry_count := 1,
                     error := Some ''Operation stuck - attempting retry''\<rparr>]
   \<and> timeout_retry_update 1 [stalled_row] =
       [stalled_row\<lparr>status := ''pending'', retry_count := 1,
                     error := Some ''Operation timed out - attempting retry''\<rparr>]
   \<and> map started_at (stuck_retry_update 1 [stalled_row]) = [Some 0]"
proof -
  have h1: "distinct (map op_id [stalled_row])"
    by simp
  have h2: "stalled_row \<in> set [stalled_row]"
    by simp
  have v: "op_id stalled_row = 1" "retry_count stalled_row = 0" "started_at stalled_row = Some 0"
    by (simp_all add: stalled_row_def sample_row_def)
  show ?thesis
    using watchdog_reset_fields [OF h1 h2] by (simp add: v)
qed

section \<open>A stale row and the Watchdog (C7, C9)\<close>

text \<open>
  C7 fails on the code: a row in \<^verbatim>\<open>processing\<close> that was started 2000 seconds before
  the pass, with retries left, matches the stuck query, but the status monitor ends at
  its first command with status 127, and so would a pass of its loop; the row is still
  \<^verbatim>\<open>processing\<close> afterwards.
\<close>

theorem stale_row_stays_processing:
  "status stalled_row = ''processing'' \<and> started_at stalled_row = Some 0
   \<and> retry_count stalled_row < MAX_RETRIES
   \<and> stuck_ops (t_stuck midday_pass) (operations stalled_db) = [stalled_row]
   \<and> monitor_status [midday_pass] stalled_db = Inl (127, stalled_db)
   \<and> monitor_pass midday_pass stalled_db = Inl (127, stalled_db)
   \<and> operations (state_left (monitor_status [midday_pass] stalled_db)) = [stalled_row]"
  by (simp add: monitor_status_exits monitor_pass_exits eval_defs stalled_db_def stalled_row_def
      sample_row_def midday_pass_def)

lemma timed_out_ops_subset_stuck_ops: "set (timed_out_ops t ops) \<subseteq> set (stuck_ops t ops)"
  by (auto simp: timed_out_ops_def stuck_ops_def older_than_def split: option.splits)

text \<open>
  C9 fails on the code where it says that the stuck check removes every matching row
  from \<^verbatim>\<open>processing\<close>: the stuck check ends the script at its first command and
  changes no row, so the row its query matched is matched again afterwards; the timeout
  check ends the script in the same way.
\<close>

theorem stuck_check_removes_no_row:
  "stuck_ops 2000 [stalled_row] = [stalled_row]
   \<and> check_stuck_operations 2000 [stalled_row] = Inl (127, [stalled_row])
   \<and> stuck_ops 2000 (state_left (check_stuck_operations 2000 [stalled_row])) = [stalled_row]
   \<and> check_timed_out_operations 2001 [stalled_row] = Inl (127, [stalled_row])"
  by (simp add: check_stuck_operations_exits check_timed_out_operations_exits eval_defs
      stalled_row_def sample_row_def)

section \<open>The daily sweep (C8)\<close>

text \<open>
  C8 fails on the code: a \<^verbatim>\<open>completed\<close> row whose \<^verbatim>\<open>completed_at\<close> is more than 30
  days old is not moved. The status monitor started at midnight ends at its first
  command with status 127, and so does \<^verbatim>\<open>cleanup_old_operations\<close>; the row is still in
  the live table and the archive is still empty.
\<close>

theorem sweep_moves_no_row:
  "old_terminal 3000000 finished_row \<and> hhmm midnight_pass = ''00:00''
   \<and> monitor_status [midnight_pass] finished_db = Inl (127, finished_db)
   \<and> cleanup_old_operations 3000000 3000000 finished_db = Inl (127, finished_db)
   \<and> operations (state_left (monitor_status [midnight_pass] finished_db)) = [finished_row]
   \<and> operations_archive (state_left (monitor_status [midnight_pass] finished_db)) = []"
  by (simp add: monitor_status_exits cleanup_old_operations_exits eval_defs finished_db_def
      finished_row_def sample_row_def midnight_pass_def)

section \<open>The shipped registry and the queue worker (C10)\<close>

lemma shipped_texts:
  "list_all (\<lambda>line. snd (read_mapping line) = [] \<or>
       (take 18 (snd (read_mapping line)) = ''/home/clp/scripts/''
        \<and> snd (read_mapping line) =
            script_part (snd (read_mapping line)) @ '' '' @ argument_part (snd (read_mapping line))
        \<and> script_part (snd (read_mapping line)) \<noteq> []
        \<and> argument_part (snd (read_mapping line)) \<noteq> []))
     operation_types_conf"
  by code_simp

lemma OPERATION_HANDLERS_loaded:
  "OPERATION_HANDLERS =
     [''# Site Operations'' \<mapsto> [],
      ''site.create'' \<mapsto> ''/home/clp/scripts/sites/manage_site.sh create'',
      ''site.delete'' \<mapsto> ''/home/clp/scripts/sites/manage_site.sh delete'',
      ''site.update'' \<mapsto> ''/home/clp/scripts/sites/manage_site.sh update'']"
  by (simp add: OPERATION_HANDLERS_def operation_types_conf_def read_mapping_def)

text \<open>
  C10 fails on the code. The texts the shipped file registers are a script path, a space
  and an argument, as the claim says. But the loop that loads the file stops at the first
  empty line, so only the three \<^verbatim>\<open>site.*\<close> types are in \<^verbatim>\<open>OPERATION_HANDLERS\<close> and a
  type such as \<^verbatim>\<open>user.create\<close> has no handler text; and the queue worker leaves with
  status 2 before \<^verbatim>\<open>process_operation\<close> is defined, so a pending row of a shipped type
  stays as it is: it is not marked \<^verbatim>\<open>failed\<close>, with no error text.
\<close>

theorem shipped_types_are_not_marked_failed:
  "OPERATION_HANDLERS ''site.create'' = Some ''/home/clp/scripts/sites/manage_site.sh create''
   \<and> OPERATION_HANDLERS ''user.create'' = None
   \<and> OPERATION_HANDLERS ''monitoring.services'' = None
   \<and> queue_worker [sample_row\<lparr>op_type := ''site.create''\<rparr>] =
       (2, [sample_row\<lparr>op_type := ''site.create''\<rparr>])
   \<and> status (sample_row\<lparr>op_type := ''site.create''\<rparr>) = ''pending''
   \<and> error (sample_row\<lparr>op_type := ''site.create''\<rparr>) = None"
  by (simp add: OPERATION_HANDLERS_loaded queue_worker_def sample_row_def)

end
